theory Spec2Isabelle
  imports Main
begin

section \<open>Python strings\<close>

text \<open>
  A Python \<open>str\<close> is modelled as a \<open>string\<close>; the character with number \<open>n\<close> stands
  for the code point \<open>n\<close>, so the model covers the texts whose code points are below 256.
  On these, \<open>str.strip()\<close> removes the code points 9-13, 28-32, 133 and 160 from both
  ends, and \<open>str.lower()\<close> adds 32 to the code points 65-90, 192-214 and 216-222 and
  leaves every other one as it is.
\<close>

definition isspace :: "char \<Rightarrow> bool" where
  "isspace c =
     (let n = (of_char c :: nat)
      in (9 \<le> n \<and> n \<le> 13) \<or> (28 \<le> n \<and> n \<le> 32) \<or> n = 133 \<or> n = 160)"

definition strip :: "string \<Rightarrow> string" where
  "strip s = rev (dropWhile isspace (rev (dropWhile isspace s)))"

definition lower_char :: "char \<Rightarrow> char" where
  "lower_char c =
     (let n = (of_char c :: nat)
      in if (65 \<le> n \<and> n \<le> 90) \<or> (192 \<le> n \<and> n \<le> 214) \<or> (216 \<le> n \<and> n \<le> 222)
         then char_of (n + 32) else c)"

definition lower :: "string \<Rightarrow> string" where
  "lower s = map lower_char s"

text \<open>\<open>sub in s\<close> on two strings: \<open>sub\<close> occurs in \<open>s\<close> as a contiguous run.\<close>

fun startswith :: "string \<Rightarrow> string \<Rightarrow> bool" where
  "startswith s [] = True"
| "startswith [] (p # ps) = False"
| "startswith (c # cs) (p # ps) = (c = p \<and> startswith cs ps)"

fun str_contains :: "string \<Rightarrow> string \<Rightarrow> bool" where
  "str_contains [] sub = (sub = [])"
| "str_contains (c # cs) sub = (startswith (c # cs) sub \<or> str_contains cs sub)"

section \<open>Python values and exceptions\<close>

text \<open>
  The values a decoded JSON document consists of. A float is written by a decimal
  expansion: \<open>PFloat m e\<close> is \<open>m * 10 ^ e\<close>. A \<open>dict\<close> is the list of its items in
  insertion order, looked up with \<open>map_of\<close>.
\<close>

datatype pyval =
    PNone
  | PBool bool
  | PInt int
  | PFloat int int
  | PStr string
  | PList "pyval list"
  | PDict "(string \<times> pyval) list"

text \<open>
  The exceptions the handler can meet. \<open>Timeout\<close> is a subclass of
  \<open>RequestException\<close> in the HTTP library; \<open>RequestException msg\<close> stands for every
  other instance of \<open>RequestException\<close> (connection errors, \<open>HTTPError\<close>), \<open>msg\<close> being
  \<open>str(e)\<close>. All of them are subclasses of \<open>Exception\<close>.
\<close>

datatype exn =
    Timeout string
  | RequestException string
  | AttributeError
  | KeyError
  | TypeError
  | IndexError
  | OtherException string

definition then_do :: "exn + 'a \<Rightarrow> ('a \<Rightarrow> exn + 'b) \<Rightarrow> exn + 'b" where
  "then_do r f = (case r of Inl e \<Rightarrow> Inl e | Inr v \<Rightarrow> f v)"

text \<open>Truth value of an object, as \<open>if v:\<close> and \<open>and\<close> test it.\<close>

fun truthy :: "pyval \<Rightarrow> bool" where
  "truthy PNone = False"
| "truthy (PBool b) = b"
| "truthy (PInt i) = (i \<noteq> 0)"
| "truthy (PFloat m e) = (m \<noteq> 0)"
| "truthy (PStr s) = (s \<noteq> [])"
| "truthy (PList xs) = (xs \<noteq> [])"
| "truthy (PDict kvs) = (kvs \<noteq> [])"

text \<open>\<open>d.get(k, default)\<close>: only a \<open>dict\<close> has the method.\<close>

fun py_get :: "pyval \<Rightarrow> string \<Rightarrow> pyval \<Rightarrow> exn + pyval" where
  "py_get (PDict kvs) k d = Inr (case map_of kvs k of Some v \<Rightarrow> v | None \<Rightarrow> d)"
| "py_get v k d = Inl AttributeError"

text \<open>\<open>v.strip()\<close>: only a \<open>str\<close> has the method.\<close>

fun py_strip :: "pyval \<Rightarrow> exn + string" where
  "py_strip (PStr s) = Inr (strip s)"
| "py_strip v = Inl AttributeError"

text \<open>
  \<open>k in v\<close> for a string \<open>k\<close>: a key of a \<open>dict\<close>, an element of a \<open>list\<close>, a
  substring of a \<open>str\<close>; the other values are not iterable.
\<close>

fun py_in :: "string \<Rightarrow> pyval \<Rightarrow> exn + bool" where
  "py_in k (PDict kvs) = Inr (map_of kvs k \<noteq> None)"
| "py_in k (PList xs) = Inr (PStr k \<in> set xs)"
| "py_in k (PStr s) = Inr (str_contains s k)"
| "py_in k v = Inl TypeError"

text \<open>\<open>v[k]\<close> for a string \<open>k\<close>.\<close>

fun getitem :: "pyval \<Rightarrow> string \<Rightarrow> exn + pyval" where
  "getitem (PDict kvs) k = (case map_of kvs k of Some v \<Rightarrow> Inr v | None \<Rightarrow> Inl KeyError)"
| "getitem v k = Inl TypeError"

text \<open>\<open>v[0]\<close>. The keys of a decoded JSON object are strings, so \<open>0\<close> is none of them.\<close>

fun getitem0 :: "pyval \<Rightarrow> exn + pyval" where
  "getitem0 (PList []) = Inl IndexError"
| "getitem0 (PList (x # xs)) = Inr x"
| "getitem0 (PStr []) = Inl IndexError"
| "getitem0 (PStr (c # cs)) = Inr (PStr [c])"
| "getitem0 (PDict kvs) = Inl KeyError"
| "getitem0 v = Inl TypeError"

section \<open>Configuration and the canned responses\<close>

text \<open>
  The two environment values the handler reads. \<open>os.environ.get\<close> gives \<open>None\<close> for
  a variable that is not set; the URL has a default, so it is always a string.
\<close>

record config =
  OPENAI_API_KEY :: "string option"
  OPENAI_API_URL :: string

definition canned_responses :: "(string \<times> string) list" where
  "canned_responses =
     [(''hello'', ''Greetings. How may I be of service?''),
      (''how are you'', ''As well as can be expected, given the circumstances. And you?''),
      (''what is the time'', ''One moment, I shall consult the chronometer.''),
      (''tell me a secret'', ''A good butler keeps his secrets, sir.''),
      (''what do you know about spain'',
       ''Spain, a land of rich history and vibrant culture. A fascinating place indeed.''),
      (''goodnight'', ''Sleep well, master. May your rest be undisturbed.''),
      (''thank you'', ''You are most welcome, sir.'')]"

section \<open>The outside world: the HTTP library, the socket server, the logger\<close>

text \<open>The arguments of \<open>requests.post(url, headers=..., json=..., timeout=...)\<close>.\<close>

record http_request =
  url :: string
  headers :: "(string \<times> string) list"
  json_body :: pyval
  timeout_seconds :: nat

text \<open>
  A response object, as far as the handler reads it: its status code, the text of the
  \<open>HTTPError\<close> that \<open>raise_for_status()\<close> raises for it, and what \<open>json()\<close> does
  (raise, or return the decoded body).
\<close>

record response =
  status_code :: nat
  http_error :: string
  json_result :: "exn + pyval"

text \<open>\<open>raise_for_status()\<close> raises an \<open>HTTPError\<close> for the statuses 4xx and 5xx.\<close>

definition raise_for_status :: "response \<Rightarrow> exn + unit" where
  "raise_for_status r =
     (if 400 \<le> status_code r \<and> status_code r < 600
      then Inl (RequestException (http_error r)) else Inr ())"

text \<open>The arguments of \<open>sio.emit(event, payload, room=...)\<close>.\<close>

record emission =
  event :: string
  payload :: pyval
  room :: string

text \<open>
  What the world answers: \<open>post\<close> raises or returns a response for a request, and
  \<open>emit\<close> raises (\<open>Some e\<close>) or returns for an emission.
\<close>

record world =
  post :: "http_request \<Rightarrow> exn + response"
  emit :: "emission \<Rightarrow> exn option"

datatype log_level = INFO | WARNING | ERROR | CRITICAL

text \<open>One constructor per logger call of the handler, with the values its text embeds.\<close>

datatype log_text =
    Message_from string pyval
  | Received_empty_message string
  | Using_canned_response string string
  | Sending_message_to_api string
  | Api_key_is_not_set
  | Received_response string
  | Unexpected_response_format pyval
  | Request_timed_out
  | Error_calling_api string
  | Unexpected_error exn
  | Sent_response string string
  | Error_sending_message string exn

type_synonym log_entry = "log_level \<times> log_text"

text \<open>
  What one run of the handler did: the exception it raised to its caller, if any, the
  calls of \<open>requests.post\<close>, the calls of \<open>sio.emit\<close> and the logger calls, each in
  order.
\<close>

record outcome =
  raised :: "exn option"
  http_calls :: "http_request list"
  emits :: "emission list"
  logged :: "log_entry list"

section \<open>The message handler\<close>

text \<open>Lines 119-131: the headers and the payload of the request.\<close>

definition build_request :: "config \<Rightarrow> string \<Rightarrow> string \<Rightarrow> http_request" where
  "build_request cfg api_key user_message =
     \<lparr>url = OPENAI_API_URL cfg,
      headers = [(''Authorization'', ''Bearer '' @ api_key),
                 (''Content-Type'', ''application/json'')],
      json_body = PDict
        [(''model'', PStr ''gpt-3.5-turbo''),
         (''messages'', PList
            [PDict [(''role'', PStr ''system''),
                    (''content'', PStr
                       (''You are a professional butler assisting your master. '' @
                        ''Respond concisely and politely.''))],
             PDict [(''role'', PStr ''user''), (''content'', PStr user_message)]]),
         (''temperature'', PFloat 7 (- 1)),
         (''max_tokens'', PInt 150)],
      timeout_seconds = 20\<rparr>"

text \<open>
  Line 139: \<open>response_data and 'choices' in response_data and response_data['choices']\<close>,
  evaluated from the left, stopping at the first false operand.
\<close>

definition has_choices :: "pyval \<Rightarrow> exn + bool" where
  "has_choices response_data =
     (if \<not> truthy response_data then Inr False
      else then_do (py_in ''choices'' response_data) (\<lambda>present.
        if \<not> present then Inr False
        else then_do (getitem response_data ''choices'') (\<lambda>choices.
          Inr (truthy choices))))"

text \<open>Line 140: \<open>response_data['choices'][0]['message']['content'].strip()\<close>.\<close>

definition first_content :: "pyval \<Rightarrow> exn + string" where
  "first_content response_data =
     then_do (getitem response_data ''choices'') (\<lambda>choices.
     then_do (getitem0 choices) (\<lambda>choice.
     then_do (getitem choice ''message'') (\<lambda>msg.
     then_do (getitem msg ''content'') (\<lambda>content.
     py_strip content))))"

text \<open>
  Lines 135-144, the rest of the \<open>try\<close> body once \<open>requests.post\<close> has returned: the
  reply text and the logger call, or the exception raised.
\<close>

definition read_response :: "response \<Rightarrow> exn + (string \<times> log_entry)" where
  "read_response openai_response =
     then_do (raise_for_status openai_response) (\<lambda>_.
     then_do (json_result openai_response) (\<lambda>response_data.
     then_do (has_choices response_data) (\<lambda>ok.
       if ok
       then then_do (first_content response_data) (\<lambda>response_text.
              Inr (response_text, (INFO, Received_response response_text)))
       else Inr (''Forgive me, master, the external service returned an uninterpretable response.'',
                 (ERROR, Unexpected_response_format response_data)))))"

text \<open>Lines 146-154: the \<open>except\<close> clauses, tried in order.\<close>

fun handle_exception :: "exn \<Rightarrow> string \<times> log_entry" where
  "handle_exception (Timeout msg) =
     (''Master, the external service took too long to respond. Pray, try again.'',
      (ERROR, Request_timed_out))"
| "handle_exception (RequestException msg) =
     (''I encountered an issue contacting the external service, master: '' @ msg,
      (ERROR, Error_calling_api msg))"
| "handle_exception e =
     (''An unexpected internal error has occurred, master.'', (ERROR, Unexpected_error e))"

text \<open>
  Lines 102-154: the reply text for a non-empty \<open>user_message\<close>, with the calls of
  \<open>requests.post\<close> and the logger calls made on the way. \<open>not OPENAI_API_KEY\<close> holds
  for \<open>None\<close> and for the empty string. Every branch assigns a string to
  \<open>response_text\<close>, so the \<open>None\<close> of line 103 never reaches line 158.
\<close>

definition process_message ::
  "config \<Rightarrow> world \<Rightarrow> string \<Rightarrow> string \<times> http_request list \<times> log_entry list" where
  "process_message cfg w user_message =
     (case map_of canned_responses (lower user_message) of
        Some response_text \<Rightarrow>
          (response_text, [], [(INFO, Using_canned_response user_message response_text)])
      | None \<Rightarrow>
          (let log1 = (INFO, Sending_message_to_api user_message) in
           case OPENAI_API_KEY cfg of
             None \<Rightarrow>
               (''Master, the external service key is not configured.'', [],
                [log1, (CRITICAL, Api_key_is_not_set)])
           | Some api_key \<Rightarrow>
               if api_key = [] then
                 (''Master, the external service key is not configured.'', [],
                  [log1, (CRITICAL, Api_key_is_not_set)])
               else
                 (let req = build_request cfg api_key user_message;
                      (response_text, log2) =
                        (case then_do (post w req) read_response of
                           Inr r \<Rightarrow> r
                         | Inl e \<Rightarrow> handle_exception e)
                  in (response_text, [req], [log1, log2]))))"

text \<open>
  Line 161: the call
  \<open>sio.emit('message', {'user': 'Butler', 'text': response_text}, room=sid)\<close>.
\<close>

definition reply_emission :: "string \<Rightarrow> string \<Rightarrow> emission" where
  "reply_emission sid response_text =
     \<lparr>event = ''message'',
      payload = PDict [(''user'', PStr ''Butler''), (''text'', PStr response_text)],
      room = sid\<rparr>"

text \<open>Lines 158-164: the reply goes to the room \<open>sid\<close>, if the text is not empty.\<close>

definition send_response :: "world \<Rightarrow> string \<Rightarrow> string \<Rightarrow> emission list \<times> log_entry list" where
  "send_response w sid response_text =
     (if response_text \<noteq> [] then
        (let em = reply_emission sid response_text
         in case emit w em of
              None \<Rightarrow> ([em], [(INFO, Sent_response sid response_text)])
            | Some e \<Rightarrow> ([em], [(ERROR, Error_sending_message sid e)]))
      else ([], []))"

text \<open>Lines 87-164: the handler of the \<open>message\<close> event.\<close>

definition message :: "config \<Rightarrow> world \<Rightarrow> string \<Rightarrow> pyval \<Rightarrow> outcome" where
  "message cfg w sid data =
     (let log0 = (INFO, Message_from sid data) in
      case then_do (py_get data ''text'' (PStr [])) py_strip of
        Inl e \<Rightarrow> \<lparr>raised = Some e, http_calls = [], emits = [], logged = [log0]\<rparr>
      | Inr user_message \<Rightarrow>
          if user_message = [] then
            \<lparr>raised = None, http_calls = [], emits = [],
             logged = [log0, (WARNING, Received_empty_message sid)]\<rparr>
          else
            (let (response_text, calls, log1) = process_message cfg w user_message;
                 (ems, log2) = send_response w sid response_text
             in \<lparr>raised = None, http_calls = calls, emits = ems,
                 logged = log0 # log1 @ log2\<rparr>))"

section \<open>The expected body, and example worlds\<close>

text \<open>
  The success body the completion service is expected to send (section 6 of the
  specification): an object with a \<open>choices\<close> array whose first element has
  \<open>message.content\<close>, a string. \<open>expected_content body\<close> is that string, or \<open>None\<close>
  when the body has another shape.
\<close>

fun expected_content :: "pyval \<Rightarrow> string option" where
  "expected_content (PDict kvs) =
     (case map_of kvs ''choices'' of
        Some (PList (PDict choice # rest)) \<Rightarrow>
          (case map_of choice ''message'' of
             Some (PDict msg) \<Rightarrow>
               (case map_of msg ''content'' of Some (PStr c) \<Rightarrow> Some c | _ \<Rightarrow> None)
           | _ \<Rightarrow> None)
      | _ \<Rightarrow> None)"
| "expected_content v = None"

text \<open>The body \<open>{choices: [{message: {content: c}}]}\<close>.\<close>

definition completion_body :: "string \<Rightarrow> pyval" where
  "completion_body c =
     PDict [(''choices'', PList [PDict [(''message'', PDict [(''content'', PStr c)])]])]"

definition example_config :: config where
  "example_config =
     \<lparr>OPENAI_API_KEY = Some ''sk-test'',
      OPENAI_API_URL = ''https://api.openai.com/v1/chat/completions''\<rparr>"

definition unconfigured :: config where
  "unconfigured =
     \<lparr>OPENAI_API_KEY = None,
      OPENAI_API_URL = ''https://api.openai.com/v1/chat/completions''\<rparr>"

text \<open>A response with the given status and decoded body.\<close>

definition json_response :: "nat \<Rightarrow> pyval \<Rightarrow> response" where
  "json_response status body =
     \<lparr>status_code = status, http_error = ''HTTP error'', json_result = Inr body\<rparr>"

text \<open>A world whose \<open>post\<close> answers every request with \<open>r\<close> and whose \<open>emit\<close> returns.\<close>

definition world_answering :: "exn + response \<Rightarrow> world" where
  "world_answering r = \<lparr>post = (\<lambda>req. r), emit = (\<lambda>em. None)\<rparr>"

text \<open>The payload \<open>{text: t}\<close> of an inbound \<open>message\<close> event.\<close>

definition text_payload :: "string \<Rightarrow> pyval" where
  "text_payload t = PDict [(''text'', PStr t)]"

section \<open>Auxiliary facts\<close>

lemma canned_reply_nonempty: "map_of canned_responses k = Some r \<Longrightarrow> r \<noteq> []"
  by (auto simp: canned_responses_def split: if_splits)

lemma canned_miss_empty: "map_of canned_responses [] = None"
  by (simp add: canned_responses_def)

lemma canned_hit_nonempty: "map_of canned_responses (lower u) = Some r \<Longrightarrow> u \<noteq> []"
  by (auto simp: lower_def canned_miss_empty)

lemma text_payload_get: "py_get (text_payload t) ''text'' (PStr []) = Inr (PStr t)"
  by (simp add: text_payload_def)

lemma send_response_emits:
  "fst (send_response w sid r) = (if r = [] then [] else [reply_emission sid r])"
  by (simp add: send_response_def Let_def split: option.split)

lemma message_routed:
  assumes "py_get data ''text'' (PStr []) = Inr (PStr t)" and "strip t \<noteq> []"
  shows "raised (message cfg w sid data) = None"
    and "http_calls (message cfg w sid data) = fst (snd (process_message cfg w (strip t)))"
    and "emits (message cfg w sid data) =
           (if fst (process_message cfg w (strip t)) = [] then []
            else [reply_emission sid (fst (process_message cfg w (strip t)))])"
  using assms
  by (simp_all add: message_def then_do_def send_response_emits case_prod_beta)

lemma process_canned:
  assumes "map_of canned_responses (lower u) = Some r"
  shows "process_message cfg w u = (r, [], [(INFO, Using_canned_response u r)])"
  using assms by (simp add: process_message_def)

lemma process_unconfigured:
  assumes "map_of canned_responses (lower u) = None"
    and "OPENAI_API_KEY cfg = None \<or> OPENAI_API_KEY cfg = Some []"
  shows "process_message cfg w u =
           (''Master, the external service key is not configured.'', [],
            [(INFO, Sending_message_to_api u), (CRITICAL, Api_key_is_not_set)])"
  using assms by (auto simp: process_message_def)

lemma process_configured:
  assumes "map_of canned_responses (lower u) = None"
    and "OPENAI_API_KEY cfg = Some k" and "k \<noteq> []"
  shows "fst (process_message cfg w u) =
           fst (case then_do (post w (build_request cfg k u)) read_response of
                  Inr r \<Rightarrow> r | Inl e \<Rightarrow> handle_exception e)"
    and "fst (snd (process_message cfg w u)) = [build_request cfg k u]"
  using assms by (simp_all add: process_message_def Let_def case_prod_beta)

lemma process_post_raises:
  assumes "map_of canned_responses (lower u) = None"
    and "OPENAI_API_KEY cfg = Some k" and "k \<noteq> []"
    and "post w (build_request cfg k u) = Inl e"
  shows "fst (process_message cfg w u) = fst (handle_exception e)"
  using assms by (simp add: process_configured then_do_def)

lemma process_post_returns:
  assumes "map_of canned_responses (lower u) = None"
    and "OPENAI_API_KEY cfg = Some k" and "k \<noteq> []"
    and "post w (build_request cfg k u) = Inr resp"
  shows "fst (process_message cfg w u) =
           fst (case read_response resp of Inr r \<Rightarrow> r | Inl e \<Rightarrow> handle_exception e)"
  using assms by (simp add: process_configured then_do_def)

lemma handle_exception_nonempty: "fst (handle_exception e) \<noteq> []"
  by (cases e) simp_all

lemma expected_contentD:
  assumes "expected_content body = Some c"
  shows "\<exists>kvs choice rest msg. body = PDict kvs \<and>
           map_of kvs ''choices'' = Some (PList (PDict choice # rest)) \<and>
           map_of choice ''message'' = Some (PDict msg) \<and>
           map_of msg ''content'' = Some (PStr c)"
  using assms
  by (cases body) (auto split: option.splits pyval.splits list.splits)

lemma expected_content_read:
  assumes "expected_content body = Some c"
  shows "has_choices body = Inr True" and "first_content body = Inr (strip c)"
proof -
  from expected_contentD [OF assms] obtain kvs choice rest msg where
    b: "body = PDict kvs"
    and c: "map_of kvs ''choices'' = Some (PList (PDict choice # rest))"
    and m: "map_of choice ''message'' = Some (PDict msg)"
    and t: "map_of msg ''content'' = Some (PStr c)"
    by blast
  from c have "kvs \<noteq> []" by auto
  then show "has_choices body = Inr True"
    using b c by (simp add: has_choices_def then_do_def)
  show "first_content body = Inr (strip c)"
    using b c m t by (simp add: first_content_def then_do_def)
qed

lemma read_expected:
  assumes "raise_for_status resp = Inr ()"
    and "json_result resp = Inr body" and "expected_content body = Some c"
  shows "read_response resp = Inr (strip c, (INFO, Received_response (strip c)))"
  using assms by (simp add: read_response_def then_do_def expected_content_read)

lemma read_response_empty:
  assumes "read_response resp = Inr ([], l)"
  shows "\<exists>body. raise_for_status resp = Inr () \<and> json_result resp = Inr body \<and>
           first_content body = Inr []"
  using assms
  by (auto simp: read_response_def then_do_def split: sum.splits if_splits)

lemma process_empty_reply:
  assumes "fst (process_message cfg w u) = []"
  shows "\<exists>k resp body. map_of canned_responses (lower u) = None \<and>
           OPENAI_API_KEY cfg = Some k \<and> k \<noteq> [] \<and>
           post w (build_request cfg k u) = Inr resp \<and>
           raise_for_status resp = Inr () \<and> json_result resp = Inr body \<and>
           first_content body = Inr []"
proof (cases "map_of canned_responses (lower u)")
  case (Some r)
  with assms canned_reply_nonempty [OF Some] show ?thesis
    by (simp add: process_canned)
next
  case None
  show ?thesis
  proof (cases "OPENAI_API_KEY cfg = None \<or> OPENAI_API_KEY cfg = Some []")
    case True
    with assms show ?thesis by (simp add: process_unconfigured [OF None])
  next
    case False
    then obtain k where k: "OPENAI_API_KEY cfg = Some k" "k \<noteq> []" by auto
    show ?thesis
    proof (cases "post w (build_request cfg k u)")
      case (Inl e)
      with assms show ?thesis
        by (simp add: process_post_raises [OF None k] handle_exception_nonempty)
    next
      case (Inr resp)
      show ?thesis
      proof (cases "read_response resp")
        case (Inl e)
        with assms show ?thesis
          by (simp add: process_post_returns [OF None k Inr] handle_exception_nonempty)
      next
        case r: (Inr p)
        with assms have "read_response resp = Inr ([], snd p)"
          by (cases p) (simp add: process_post_returns [OF None k Inr])
        from read_response_empty [OF this] None k Inr show ?thesis by blast
      qed
    qed
  qed
qed

lemma message_calls:
  "http_calls (message cfg w sid data) = [] \<or>
   (\<exists>t k. py_get data ''text'' (PStr []) = Inr (PStr t) \<and> strip t \<noteq> [] \<and>
      map_of canned_responses (lower (strip t)) = None \<and>
      OPENAI_API_KEY cfg = Some k \<and> k \<noteq> [] \<and>
      http_calls (message cfg w sid data) = [build_request cfg k (strip t)])"
proof (cases "py_get data ''text'' (PStr [])")
  case (Inl e)
  then show ?thesis by (simp add: message_def then_do_def)
next
  case (Inr v)
  show ?thesis
  proof (cases "\<exists>t. v = PStr t \<and> strip t \<noteq> []")
    case False
    then have "http_calls (message cfg w sid data) = []"
      using Inr by (cases v) (auto simp: message_def then_do_def)
    then show ?thesis ..
  next
    case True
    then obtain t where t: "py_get data ''text'' (PStr []) = Inr (PStr t)" "strip t \<noteq> []"
      using Inr by auto
    note calls = message_routed(2) [OF t]
    show ?thesis
    proof (cases "map_of canned_responses (lower (strip t))")
      case (Some r)
      then show ?thesis by (simp add: calls process_canned)
    next
      case None
      show ?thesis
      proof (cases "OPENAI_API_KEY cfg = None \<or> OPENAI_API_KEY cfg = Some []")
        case True
        then show ?thesis by (simp add: calls process_unconfigured [OF None])
      next
        case False
        then obtain k where k: "OPENAI_API_KEY cfg = Some k" "k \<noteq> []" by auto
        have "http_calls (message cfg w sid data) = [build_request cfg k (strip t)]"
          by (simp add: calls process_configured(2) [OF None k])
        with t None k show ?thesis by blast
      qed
    qed
  qed
qed

section \<open>One reply per message\<close>

text \<open>
  Claim C1 says that every non-empty inbound message gets exactly one reply. A
  completion whose content is blank is trimmed to the empty text, which line 158 does
  not emit: the message \<open>Tell me a joke\<close> gets no reply.
\<close>

theorem blank_completion_counterexample:
  "py_get (text_payload ''Tell me a joke'') ''text'' (PStr []) = Inr (PStr ''Tell me a joke'') \<and>
   strip ''Tell me a joke'' \<noteq> [] \<and>
   emits (message example_config
     (world_answering (Inr (json_response 200 (completion_body ''   ''))))
     ''sid-1'' (text_payload ''Tell me a joke'')) = []"
  by code_simp

text \<open>
  Claim C1, as the handler has it. For every inbound text that is not empty after
  trimming, the handler raises nothing to its caller and computes one reply text. If
  that text is not empty, \<open>sio.emit\<close> is called exactly once, with the text and the
  room \<open>sid\<close> of the sender; if it is empty, nothing is emitted (line 158), and that
  happens only when the completion service returned a body whose first choice's
  content is empty after trimming. So at most one reply is emitted, and only to the
  sender.
\<close>

theorem reply_to_sender:
  assumes "py_get data ''text'' (PStr []) = Inr (PStr t)" and "strip t \<noteq> []"
  shows "raised (message cfg w sid data) = None \<and>
         emits (message cfg w sid data) =
           (if fst (process_message cfg w (strip t)) = [] then []
            else [reply_emission sid (fst (process_message cfg w (strip t)))]) \<and>
         length (emits (message cfg w sid data)) \<le> 1 \<and>
         (\<forall>em \<in> set (emits (message cfg w sid data)). room em = sid) \<and>
         (fst (process_message cfg w (strip t)) = [] \<longrightarrow>
            (\<exists>k resp body. map_of canned_responses (lower (strip t)) = None \<and>
               OPENAI_API_KEY cfg = Some k \<and> k \<noteq> [] \<and>
               post w (build_request cfg k (strip t)) = Inr resp \<and>
               raise_for_status resp = Inr () \<and> json_result resp = Inr body \<and>
               first_content body = Inr []))"
proof -
  note m = message_routed [OF assms]
  have "room em = sid" if "em \<in> set (emits (message cfg w sid data))" for em
    using that by (simp add: m reply_emission_def split: if_splits)
  then show ?thesis
    using process_empty_reply [of cfg w "strip t"] by (simp add: m)
qed

theorem reply_to_sender_witness:
  "raised (message example_config (world_answering (Inl (RequestException ''refused''))) ''sid-1''
     (text_payload ''Tell me a joke'')) = None \<and>
   emits (message example_config (world_answering (Inl (RequestException ''refused''))) ''sid-1''
     (text_payload ''Tell me a joke'')) =
     [reply_emission ''sid-1''
        ''I encountered an issue contacting the external service, master: refused'']"
proof -
  let ?w = "world_answering (Inl (RequestException ''refused''))"
  have ne: "strip ''Tell me a joke'' \<noteq> []" by code_simp
  have r: "fst (process_message example_config ?w (strip ''Tell me a joke'')) =
      ''I encountered an issue contacting the external service, master: refused''"
    by code_simp
  from reply_to_sender [OF text_payload_get ne, of example_config ?w "''sid-1''"]
  show ?thesis by (simp add: r)
qed

section \<open>Canned responses\<close>

text \<open>
  Claim C2. Whenever the trimmed, lowercased inbound text is a key of
  \<open>canned_responses\<close>, the reply is exactly the value the table holds for that key, no
  call of \<open>requests.post\<close> is made, and the reply is emitted to the sender; this holds for
  every configuration, with or without an API key. The texts \<open>Hello\<close> and \<open>HELLO\<close> both
  get \<open>Greetings. How may I be of service?\<close>.
\<close>

theorem canned_table_hit:
  "(py_get data ''text'' (PStr []) = Inr (PStr t) \<and>
    map_of canned_responses (lower (strip t)) = Some r \<longrightarrow>
      fst (process_message cfg w (strip t)) = r \<and>
      fst (snd (process_message cfg w (strip t))) = [] \<and>
      raised (message cfg w sid data) = None \<and>
      http_calls (message cfg w sid data) = [] \<and>
      emits (message cfg w sid data) = [reply_emission sid r]) \<and>
   emits (message cfg w sid (text_payload ''Hello'')) =
     [reply_emission sid ''Greetings. How may I be of service?''] \<and>
   emits (message cfg w sid (text_payload ''HELLO'')) =
     [reply_emission sid ''Greetings. How may I be of service?'']"
proof -
  have hit: "fst (process_message cfg w (strip t)) = r \<and>
      fst (snd (process_message cfg w (strip t))) = [] \<and>
      raised (message cfg w sid data) = None \<and>
      http_calls (message cfg w sid data) = [] \<and>
      emits (message cfg w sid data) = [reply_emission sid r]"
    if get: "py_get data ''text'' (PStr []) = Inr (PStr t)"
      and key: "map_of canned_responses (lower (strip t)) = Some r"
    for data t r
  proof -
    have ne: "strip t \<noteq> []" using key by (rule canned_hit_nonempty)
    have r: "r \<noteq> []" using key by (rule canned_reply_nonempty)
    show ?thesis
      using r by (simp add: message_routed [OF get ne] process_canned [OF key])
  qed
  have hello: "map_of canned_responses (lower (strip ''Hello'')) =
      Some ''Greetings. How may I be of service?''"
    by code_simp
  have HELLO: "map_of canned_responses (lower (strip ''HELLO'')) =
      Some ''Greetings. How may I be of service?''"
    by code_simp
  show ?thesis
    using hit [OF text_payload_get hello] hit [OF text_payload_get HELLO] hit by blast
qed

theorem canned_table_hit_witness:
  "http_calls (message unconfigured (world_answering (Inl (Timeout []))) ''sid-1''
      (text_payload ''  Thank You '')) = [] \<and>
   emits (message unconfigured (world_answering (Inl (Timeout []))) ''sid-1''
      (text_payload ''  Thank You '')) = [reply_emission ''sid-1'' ''You are most welcome, sir.'']"
proof -
  have key: "map_of canned_responses (lower (strip ''  Thank You '')) =
      Some ''You are most welcome, sir.''"
    by code_simp
  show ?thesis
    using canned_table_hit [of "text_payload ''  Thank You ''" "''  Thank You ''"
        "''You are most welcome, sir.''" unconfigured "world_answering (Inl (Timeout []))" "''sid-1''"]
      text_payload_get key
    by simp
qed

section \<open>Replies of the completion service\<close>

text \<open>
  Claim C3. For a non-empty text that is not in the table, with an API key configured,
  when \<open>requests.post\<close> returns a response with a 2xx status whose body has the expected
  shape, the reply is the first choice's content with the surrounding whitespace
  trimmed, and nothing else changed. The body
  \<open>{choices: [{message: {content: " Sunny today. "}}]}\<close> gives \<open>Sunny today.\<close>.
\<close>

theorem completion_reply:
  "(py_get data ''text'' (PStr []) = Inr (PStr t) \<and> strip t \<noteq> [] \<and>
    map_of canned_responses (lower (strip t)) = None \<and>
    OPENAI_API_KEY cfg = Some k \<and> k \<noteq> [] \<and>
    post w (build_request cfg k (strip t)) = Inr resp \<and>
    200 \<le> status_code resp \<and> status_code resp < 300 \<and>
    json_result resp = Inr body \<and> expected_content body = Some c \<longrightarrow>
      fst (process_message cfg w (strip t)) = strip c \<and>
      raised (message cfg w sid data) = None \<and>
      emits (message cfg w sid data) =
        (if strip c = [] then [] else [reply_emission sid (strip c)])) \<and>
   fst (process_message example_config
     (world_answering (Inr (json_response 200 (completion_body '' Sunny today. ''))))
     ''What's the weather?'') = ''Sunny today.''"
proof -
  have general: "fst (process_message cfg w (strip t)) = strip c \<and>
      raised (message cfg w sid data) = None \<and>
      emits (message cfg w sid data) =
        (if strip c = [] then [] else [reply_emission sid (strip c)])"
    if get: "py_get data ''text'' (PStr []) = Inr (PStr t)" and ne: "strip t \<noteq> []"
      and miss: "map_of canned_responses (lower (strip t)) = None"
      and key: "OPENAI_API_KEY cfg = Some k" "k \<noteq> []"
      and post: "post w (build_request cfg k (strip t)) = Inr resp"
      and status: "200 \<le> status_code resp" "status_code resp < 300"
      and body: "json_result resp = Inr body" "expected_content body = Some c"
  proof -
    from status have "raise_for_status resp = Inr ()"
      by (simp add: raise_for_status_def)
    from read_expected [OF this body]
    have "fst (process_message cfg w (strip t)) = strip c"
      by (simp add: process_post_returns [OF miss key post])
    then show ?thesis
      by (simp add: message_routed [OF get ne])
  qed
  have example: "fst (process_message example_config
     (world_answering (Inr (json_response 200 (completion_body '' Sunny today. ''))))
     ''What's the weather?'') = ''Sunny today.''"
    by code_simp
  from general example show ?thesis by blast
qed

theorem completion_reply_witness:
  "fst (process_message example_config
     (world_answering (Inr (json_response 200 (completion_body '' Sunny today. ''))))
     ''What's the weather?'') = ''Sunny today.'' \<and>
   emits (message example_config
     (world_answering (Inr (json_response 200 (completion_body '' Sunny today. ''))))
     ''sid-1'' (text_payload '' What's the weather?'')) = [reply_emission ''sid-1'' ''Sunny today.'']"
proof -
  let ?w = "world_answering (Inr (json_response 200 (completion_body '' Sunny today. '')))"
  have s: "strip '' What's the weather?'' = ''What's the weather?''" by code_simp
  have c: "strip '' Sunny today. '' = ''Sunny today.''" by code_simp
  have ne: "strip '' What's the weather?'' \<noteq> []" by code_simp
  have miss: "map_of canned_responses (lower (strip '' What's the weather?'')) = None"
    by code_simp
  have key: "OPENAI_API_KEY example_config = Some ''sk-test''" "''sk-test'' \<noteq> []"
    by (simp_all add: example_config_def)
  have post: "post ?w (build_request example_config ''sk-test'' (strip '' What's the weather?'')) =
      Inr (json_response 200 (completion_body '' Sunny today. ''))"
    by (simp add: world_answering_def)
  have status: "200 \<le> status_code (json_response 200 (completion_body '' Sunny today. ''))"
    "status_code (json_response 200 (completion_body '' Sunny today. '')) < 300"
    by (simp_all add: json_response_def)
  have body: "json_result (json_response 200 (completion_body '' Sunny today. '')) =
      Inr (completion_body '' Sunny today. '')"
    "expected_content (completion_body '' Sunny today. '') = Some '' Sunny today. ''"
    by (simp_all add: json_response_def completion_body_def)
  from completion_reply [of "text_payload '' What's the weather?''" "'' What's the weather?''"
      example_config "''sk-test''" ?w "json_response 200 (completion_body '' Sunny today. '')"
      "completion_body '' Sunny today. ''" "'' Sunny today. ''" "''sid-1''"]
    text_payload_get ne miss key post status body
  show ?thesis by (simp add: s c)
qed

text \<open>
  Claim C4 says that every received body without the expected shape gets the
  "uninterpretable response" apology. Line 139 tests only that \<open>choices\<close> is there and
  not empty; for the body \<open>{choices: [{}]}\<close> line 140 raises \<open>KeyError\<close>, and the reply
  is the apology of the last \<open>except\<close> clause.
\<close>

theorem missing_message_field:
  "expected_content (PDict [(''choices'', PList [PDict []])]) = None \<and>
   fst (process_message example_config
     (world_answering (Inr (json_response 200 (PDict [(''choices'', PList [PDict []])]))))
     ''Tell me a joke'') = ''An unexpected internal error has occurred, master.''"
  by code_simp

text \<open>
  The bodies that line 139 does turn away, an object without \<open>choices\<close> or with an
  empty \<open>choices\<close> array, get the "uninterpretable response" apology.
\<close>

lemma no_choices_apology:
  assumes "map_of canned_responses (lower u) = None"
    and "OPENAI_API_KEY cfg = Some k" and "k \<noteq> []"
    and "post w (build_request cfg k u) = Inr resp"
    and "raise_for_status resp = Inr ()" and "json_result resp = Inr (PDict kvs)"
    and "map_of kvs ''choices'' = None \<or> map_of kvs ''choices'' = Some (PList [])"
  shows "fst (process_message cfg w u) =
           ''Forgive me, master, the external service returned an uninterpretable response.''"
proof -
  from assms(7) have "has_choices (PDict kvs) = Inr False"
    by (auto simp: has_choices_def then_do_def)
  with assms(5,6) have "read_response resp =
      Inr (''Forgive me, master, the external service returned an uninterpretable response.'',
           (ERROR, Unexpected_response_format (PDict kvs)))"
    by (simp add: read_response_def then_do_def)
  then show ?thesis
    by (simp add: process_post_returns [OF assms(1-4)])
qed

section \<open>Failures of the outbound call\<close>

text \<open>
  Claim C5 counts every status outside 2xx as a failure, and says that the raw error
  never reaches the client. Neither holds. \<open>raise_for_status()\<close> raises for 4xx and 5xx
  only (line 135): a response with status 300 and a body of the expected shape is
  answered with its content. And line 150 puts \<open>str(e)\<close> into the reply, which line 161
  emits: when \<open>requests.post\<close> raises a connection error whose text is
  \<open>Connection refused\<close>, the client is sent that text after the fixed apology.
\<close>

theorem transport_failure_counterexample:
  "(post (world_answering (Inr (json_response 300 (completion_body ''At once, sir.''))))
      (build_request example_config ''sk-test'' ''Tell me a joke'') =
      Inr (json_response 300 (completion_body ''At once, sir.'')) \<and>
    status_code (json_response 300 (completion_body ''At once, sir.'')) = 300 \<and>
    fst (process_message example_config
      (world_answering (Inr (json_response 300 (completion_body ''At once, sir.''))))
      ''Tell me a joke'') = ''At once, sir.'') \<and>
   (post (world_answering (Inl (RequestException ''Connection refused'')))
      (build_request example_config ''sk-test'' ''Tell me a joke'') =
      Inl (RequestException ''Connection refused'') \<and>
    emits (message example_config
      (world_answering (Inl (RequestException ''Connection refused''))) ''sid-1''
      (text_payload ''Tell me a joke'')) =
      [reply_emission ''sid-1''
         (''I encountered an issue contacting the external service, master: '' @
          ''Connection refused'')])"
  by code_simp

text \<open>
  Claim C5, as the handler has it. When \<open>requests.post\<close> raises a \<open>RequestException\<close>
  that is not a timeout (connection refused, DNS failure), or returns a response with
  a 4xx or 5xx status, the reply is the fixed text
  \<open>I encountered an issue contacting the external service, master: \<close> followed by the
  raw error text \<open>str(e)\<close>, and this reply, error text included, is emitted to the
  sender; the exception itself is not raised to the caller.
\<close>

theorem transport_failure_apology:
  assumes "py_get data ''text'' (PStr []) = Inr (PStr t)" and "strip t \<noteq> []"
    and "map_of canned_responses (lower (strip t)) = None"
    and "OPENAI_API_KEY cfg = Some k" and "k \<noteq> []"
    and "post w (build_request cfg k (strip t)) = Inl (RequestException msg) \<or>
         (\<exists>resp. post w (build_request cfg k (strip t)) = Inr resp \<and>
            400 \<le> status_code resp \<and> status_code resp < 600 \<and> http_error resp = msg)"
  shows "fst (process_message cfg w (strip t)) =
           ''I encountered an issue contacting the external service, master: '' @ msg \<and>
         raised (message cfg w sid data) = None \<and>
         emits (message cfg w sid data) =
           [reply_emission sid
              (''I encountered an issue contacting the external service, master: '' @ msg)]"
proof -
  have "fst (process_message cfg w (strip t)) =
      ''I encountered an issue contacting the external service, master: '' @ msg"
    using assms(6)
  proof
    assume "post w (build_request cfg k (strip t)) = Inl (RequestException msg)"
    from process_post_raises [OF assms(3-5) this] show ?thesis by simp
  next
    assume "\<exists>resp. post w (build_request cfg k (strip t)) = Inr resp \<and>
            400 \<le> status_code resp \<and> status_code resp < 600 \<and> http_error resp = msg"
    then obtain resp where post: "post w (build_request cfg k (strip t)) = Inr resp"
      and status: "400 \<le> status_code resp" "status_code resp < 600"
      and msg: "http_error resp = msg"
      by blast
    from status msg have "read_response resp = Inl (RequestException msg)"
      by (simp add: read_response_def raise_for_status_def then_do_def)
    then show ?thesis
      by (simp add: process_post_returns [OF assms(3-5) post])
  qed
  then show ?thesis
    by (simp add: message_routed [OF assms(1,2)])
qed

theorem transport_failure_apology_witness:
  "fst (process_message example_config
     (world_answering (Inr (json_response 503 (completion_body ''At once, sir.''))))
     ''Tell me a joke'') =
     ''I encountered an issue contacting the external service, master: HTTP error'' \<and>
   raised (message example_config
     (world_answering (Inr (json_response 503 (completion_body ''At once, sir.''))))
     ''sid-1'' (text_payload ''Tell me a joke'')) = None"
proof -
  let ?resp = "json_response 503 (completion_body ''At once, sir.'')"
  let ?w = "world_answering (Inr ?resp)"
  have s: "strip ''Tell me a joke'' = ''Tell me a joke''" by code_simp
  have ne: "strip ''Tell me a joke'' \<noteq> []" by code_simp
  have miss: "map_of canned_responses (lower (strip ''Tell me a joke'')) = None" by code_simp
  have key: "OPENAI_API_KEY example_config = Some ''sk-test''" "''sk-test'' \<noteq> []"
    by (simp_all add: example_config_def)
  have "post ?w (build_request example_config ''sk-test'' (strip ''Tell me a joke'')) = Inr ?resp \<and>
      400 \<le> status_code ?resp \<and> status_code ?resp < 600 \<and> http_error ?resp = ''HTTP error''"
    by (simp add: world_answering_def json_response_def)
  then have fail: "post ?w (build_request example_config ''sk-test'' (strip ''Tell me a joke'')) =
        Inl (RequestException ''HTTP error'') \<or>
      (\<exists>resp. post ?w (build_request example_config ''sk-test'' (strip ''Tell me a joke'')) =
          Inr resp \<and>
        400 \<le> status_code resp \<and> status_code resp < 600 \<and> http_error resp = ''HTTP error'')"
    by blast
  from transport_failure_apology [OF text_payload_get ne miss key fail, of "''sid-1''"]
  show ?thesis by (simp add: s)
qed

text \<open>
  Claim C6. For a non-empty text that is not in the table, when \<open>OPENAI_API_KEY\<close> is
  not set (or is the empty string), the reply is the fixed text
  \<open>Master, the external service key is not configured.\<close>, no call of \<open>requests.post\<close>
  is made, and a \<open>CRITICAL\<close> entry is logged.
\<close>

theorem no_key_apology:
  assumes "py_get data ''text'' (PStr []) = Inr (PStr t)" and "strip t \<noteq> []"
    and "map_of canned_responses (lower (strip t)) = None"
    and "OPENAI_API_KEY cfg = None \<or> OPENAI_API_KEY cfg = Some []"
  shows "fst (process_message cfg w (strip t)) =
           ''Master, the external service key is not configured.'' \<and>
         raised (message cfg w sid data) = None \<and>
         http_calls (message cfg w sid data) = [] \<and>
         emits (message cfg w sid data) =
           [reply_emission sid ''Master, the external service key is not configured.''] \<and>
         (CRITICAL, Api_key_is_not_set) \<in> set (logged (message cfg w sid data))"
proof -
  note p = process_unconfigured [OF assms(3,4)]
  have "(CRITICAL, Api_key_is_not_set) \<in> set (logged (message cfg w sid data))"
    using assms(1,2) by (simp add: message_def then_do_def p case_prod_beta)
  then show ?thesis
    by (simp add: message_routed [OF assms(1,2)] p)
qed

theorem no_key_apology_witness:
  "fst (process_message unconfigured (world_answering (Inl (Timeout []))) ''Tell me a joke'') =
     ''Master, the external service key is not configured.'' \<and>
   http_calls (message unconfigured (world_answering (Inl (Timeout []))) ''sid-1''
     (text_payload ''Tell me a joke '')) = [] \<and>
   (CRITICAL, Api_key_is_not_set) \<in> set (logged
     (message unconfigured (world_answering (Inl (Timeout []))) ''sid-1''
       (text_payload ''Tell me a joke '')))"
proof -
  have s: "strip ''Tell me a joke '' = ''Tell me a joke''" by code_simp
  have ne: "strip ''Tell me a joke '' \<noteq> []" by code_simp
  have miss: "map_of canned_responses (lower (strip ''Tell me a joke '')) = None" by code_simp
  have key: "OPENAI_API_KEY unconfigured = None \<or> OPENAI_API_KEY unconfigured = Some []"
    by (simp add: unconfigured_def)
  show ?thesis
    using no_key_apology [OF text_payload_get ne miss key, of
        "world_answering (Inl (Timeout []))" "''sid-1''"]
    by (simp add: s)
qed

text \<open>
  Claim C7. When \<open>requests.post\<close> raises \<open>Timeout\<close>, the reply is the fixed text
  \<open>Master, the external service took too long to respond. Pray, try again.\<close> and the
  handler raises nothing to its caller.
\<close>

theorem timeout_apology:
  assumes "py_get data ''text'' (PStr []) = Inr (PStr t)" and "strip t \<noteq> []"
    and "map_of canned_responses (lower (strip t)) = None"
    and "OPENAI_API_KEY cfg = Some k" and "k \<noteq> []"
    and "post w (build_request cfg k (strip t)) = Inl (Timeout msg)"
  shows "fst (process_message cfg w (strip t)) =
           ''Master, the external service took too long to respond. Pray, try again.'' \<and>
         raised (message cfg w sid data) = None \<and>
         emits (message cfg w sid data) =
           [reply_emission sid
              ''Master, the external service took too long to respond. Pray, try again.'']"
  by (simp add: message_routed [OF assms(1,2)] process_post_raises [OF assms(3-6)])

theorem timeout_apology_witness:
  "fst (process_message example_config (world_answering (Inl (Timeout ''read timed out'')))
      ''Tell me a joke'') =
     ''Master, the external service took too long to respond. Pray, try again.'' \<and>
   raised (message example_config (world_answering (Inl (Timeout ''read timed out''))) ''sid-1''
      (text_payload ''Tell me a joke'')) = None"
proof -
  have s: "strip ''Tell me a joke'' = ''Tell me a joke''" by code_simp
  have ne: "strip ''Tell me a joke'' \<noteq> []" by code_simp
  have miss: "map_of canned_responses (lower (strip ''Tell me a joke'')) = None" by code_simp
  have key: "OPENAI_API_KEY example_config = Some ''sk-test''" "''sk-test'' \<noteq> []"
    by (simp_all add: example_config_def)
  have out: "post (world_answering (Inl (Timeout ''read timed out'')))
      (build_request example_config ''sk-test'' (strip ''Tell me a joke'')) =
      Inl (Timeout ''read timed out'')"
    by (simp add: world_answering_def)
  show ?thesis
    using timeout_apology [OF text_payload_get ne miss key out, of "''sid-1''"]
    by (simp add: s)
qed

section \<open>Empty messages\<close>

text \<open>
  Claim C8. When the text of the payload is empty or whitespace only after trimming,
  or the payload has no \<open>text\<close> field (the default \<open>''\<close> is taken), nothing is emitted
  and no call of \<open>requests.post\<close> is made: the handler logs the message and a warning
  and returns.
\<close>

theorem empty_text_ignored:
  assumes "py_get data ''text'' (PStr []) = Inr (PStr t)" and "strip t = []"
  shows "raised (message cfg w sid data) = None \<and>
         emits (message cfg w sid data) = [] \<and>
         http_calls (message cfg w sid data) = [] \<and>
         logged (message cfg w sid data) =
           [(INFO, Message_from sid data), (WARNING, Received_empty_message sid)]"
  using assms by (simp add: message_def then_do_def)

theorem empty_text_ignored_witness:
  "(emits (message example_config (world_answering (Inl (Timeout []))) ''sid-1'' (PDict [])) = [] \<and>
    http_calls (message example_config (world_answering (Inl (Timeout []))) ''sid-1'' (PDict [])) = []) \<and>
   (emits (message example_config (world_answering (Inl (Timeout []))) ''sid-1''
      (text_payload ''   '')) = [] \<and>
    http_calls (message example_config (world_answering (Inl (Timeout []))) ''sid-1''
      (text_payload ''   '')) = [])"
proof -
  have blank: "strip [] = []" "strip ''   '' = []" by code_simp+
  have absent: "py_get (PDict []) ''text'' (PStr []) = Inr (PStr [])" by simp
  show ?thesis
    using empty_text_ignored [OF absent blank(1), of example_config
        "world_answering (Inl (Timeout []))" "''sid-1''"]
      empty_text_ignored [OF text_payload_get blank(2), of example_config
        "world_answering (Inl (Timeout []))" "''sid-1''"]
    by simp
qed

section \<open>A single request\<close>

text \<open>
  For every inbound message the handler calls \<open>requests.post\<close> at most once; the call
  is made with the argument \<open>timeout=20\<close>, and when it raises \<open>Timeout\<close> the reply is
  the "took too long" apology. How long a call lasts is decided inside the HTTP
  library: the handler has no clock, and neither has \<open>world\<close>, so the bound of 20
  seconds on the attempt (claim C9) is not a statement about these definitions.
\<close>

lemma at_most_one_request:
  "length (http_calls (message cfg w sid data)) \<le> 1 \<and>
   (\<forall>req \<in> set (http_calls (message cfg w sid data)).
      timeout_seconds req = 20 \<and>
      (\<forall>msg. post w req = Inl (Timeout msg) \<longrightarrow>
         emits (message cfg w sid data) =
           [reply_emission sid
              ''Master, the external service took too long to respond. Pray, try again.'']))"
proof -
  from message_calls [of cfg w sid data] show ?thesis
  proof
    assume "http_calls (message cfg w sid data) = []"
    then show ?thesis by simp
  next
    assume "\<exists>t k. py_get data ''text'' (PStr []) = Inr (PStr t) \<and> strip t \<noteq> [] \<and>
      map_of canned_responses (lower (strip t)) = None \<and>
      OPENAI_API_KEY cfg = Some k \<and> k \<noteq> [] \<and>
      http_calls (message cfg w sid data) = [build_request cfg k (strip t)]"
    then obtain t k where get: "py_get data ''text'' (PStr []) = Inr (PStr t)"
      and ne: "strip t \<noteq> []"
      and miss: "map_of canned_responses (lower (strip t)) = None"
      and key: "OPENAI_API_KEY cfg = Some k" "k \<noteq> []"
      and calls: "http_calls (message cfg w sid data) = [build_request cfg k (strip t)]"
      by blast
    have "emits (message cfg w sid data) =
           [reply_emission sid
              ''Master, the external service took too long to respond. Pray, try again.'']"
      if "post w (build_request cfg k (strip t)) = Inl (Timeout msg)" for msg
      by (simp add: message_routed [OF get ne] process_post_raises [OF miss key that])
    then show ?thesis
      by (simp add: calls build_request_def)
  qed
qed

section \<open>The keys of the table\<close>

text \<open>
  Claim C10. Every key of \<open>canned_responses\<close> is its own trimmed, lowercased form, so the
  lookup of the handler, made with the trimmed and lowercased text, finds the entry of
  every key.
\<close>

theorem canned_keys_normalized:
  "\<forall>(k, v) \<in> set canned_responses.
     lower (strip k) = k \<and> map_of canned_responses (lower (strip k)) = Some v"
  by code_simp

theorem canned_keys_normalized_witness:
  "lower (strip ''what do you know about spain'') = ''what do you know about spain'' \<and>
   map_of canned_responses (lower (strip ''what do you know about spain'')) =
     Some ''Spain, a land of rich history and vibrant culture. A fascinating place indeed.''"
proof -
  have "(''what do you know about spain'',
         ''Spain, a land of rich history and vibrant culture. A fascinating place indeed.'')
        \<in> set canned_responses"
    by (simp add: canned_responses_def)
  from bspec [OF canned_keys_normalized this] show ?thesis
    unfolding prod.case .
qed

end
